theory Spec2Isabelle
  imports Main "HOL-Library.Sublist" "HOL-Library.Word"
begin

section \<open>Python values, exceptions and library functions used by app.py\<close>

text \<open>
  Text is a list of characters, each standing for one code point below 256; raw file
  contents are lists of bytes.
\<close>

type_synonym bytes = "8 word list"

text \<open>A Python float: a signed binary fraction, an infinity or not-a-number.\<close>

datatype pyfloat = Finite bool nat int | Infinite bool | NaN

text \<open>
  The values \<open>json.loads\<close> can build. A dict has string keys; it is a finite map, compared
  by content as Python's \<open>==\<close> compares dicts.
\<close>

datatype pyval =
    PNone
  | PBool bool
  | PInt int
  | PFloat pyfloat
  | PStr string
  | PList "pyval list"
  | PDict "string \<Rightarrow> pyval option"

type_synonym pydict = "string \<Rightarrow> pyval option"

text \<open>
  An exception is its class and what \<open>str(e)\<close> gives. The messages of the exceptions the
  interpreter raises by itself follow the wording of CPython 3.11 to 3.13.
\<close>

datatype exn_class =
    JSONDecodeError | ValueError | KeyError | TypeError | UnboundLocalError
  | FileNotFoundError | OtherException

datatype exn = Exn exn_class string

fun exn_class_of :: "exn \<Rightarrow> exn_class" where
  "exn_class_of (Exn c m) = c"

fun str_exn :: "exn \<Rightarrow> string" where
  "str_exn (Exn c m) = m"

text \<open>A name between single quotes, as the interpreter's messages write a type or a variable.\<close>

definition quoted :: "string \<Rightarrow> string" where
  "quoted s = [CHR 0x27] @ s @ [CHR 0x27]"

text \<open>
  \<open>repr(s)\<close> of a string: between single quotes, or between double quotes when the string
  holds an apostrophe and no double quote; the quote character and the backslash are
  escaped, tab, newline and carriage return are written \<open>\t\<close>, \<open>\n\<close>, \<open>\r\<close>, and every other
  character that is not printable is written \<open>\xhh\<close>.
\<close>

definition hex_digit :: "nat \<Rightarrow> char" where
  "hex_digit n = ''0123456789abcdef'' ! n"

definition py_repr_char :: "char \<Rightarrow> char \<Rightarrow> string" where
  "py_repr_char quote c =
     (let n = (of_char c :: nat)
      in if c = quote \<or> c = CHR 0x5C then [CHR 0x5C, c]
         else if c = CHR 0x09 then [CHR 0x5C, CHR ''t'']
         else if c = CHR 0x0A then [CHR 0x5C, CHR ''n'']
         else if c = CHR 0x0D then [CHR 0x5C, CHR ''r'']
         else if n < 32 \<or> n = 127 \<or> (128 \<le> n \<and> n \<le> 160) \<or> n = 173
         then [CHR 0x5C, CHR ''x'', hex_digit (n div 16), hex_digit (n mod 16)]
         else [c])"

definition py_repr :: "string \<Rightarrow> string" where
  "py_repr s =
     (let quote = (if CHR 0x27 \<in> set s \<and> CHR 0x22 \<notin> set s then CHR 0x22 else CHR 0x27)
      in [quote] @ concat (map (py_repr_char quote) s) @ [quote])"

text \<open>\<open>str(n)\<close> of a natural number.\<close>

function py_str_nat :: "nat \<Rightarrow> string" where
  "py_str_nat n =
     (if n < 10 then [''0123456789'' ! n]
      else py_str_nat (n div 10) @ [''0123456789'' ! (n mod 10)])"
  by pat_completeness auto
termination
  by (relation "measure id") auto

text \<open>\<open>bool(v)\<close>, as \<open>not v\<close> and \<open>if v\<close> evaluate it.\<close>

fun py_truthy :: "pyval \<Rightarrow> bool" where
  "py_truthy PNone = False"
| "py_truthy (PBool b) = b"
| "py_truthy (PInt i) = (i \<noteq> 0)"
| "py_truthy (PFloat f) = (case f of Finite sg m e \<Rightarrow> m \<noteq> 0 | Infinite sg \<Rightarrow> True | NaN \<Rightarrow> True)"
| "py_truthy (PStr s) = (s \<noteq> [])"
| "py_truthy (PList xs) = (xs \<noteq> [])"
| "py_truthy (PDict d) = (d \<noteq> Map.empty)"

text \<open>\<open>v[k]\<close> for a string key \<open>k\<close>.\<close>

fun py_getitem :: "pyval \<Rightarrow> string \<Rightarrow> exn + pyval" where
  "py_getitem (PDict d) k =
     (case d k of None \<Rightarrow> Inl (Exn KeyError (py_repr k)) | Some v \<Rightarrow> Inr v)"
| "py_getitem (PList xs) k = Inl (Exn TypeError ''list indices must be integers or slices, not str'')"
| "py_getitem (PStr s) k = Inl (Exn TypeError (''string indices must be integers, not '' @ quoted ''str''))"
| "py_getitem PNone k = Inl (Exn TypeError (quoted ''NoneType'' @ '' object is not subscriptable''))"
| "py_getitem (PBool b) k = Inl (Exn TypeError (quoted ''bool'' @ '' object is not subscriptable''))"
| "py_getitem (PInt i) k = Inl (Exn TypeError (quoted ''int'' @ '' object is not subscriptable''))"
| "py_getitem (PFloat f) k = Inl (Exn TypeError (quoted ''float'' @ '' object is not subscriptable''))"

text \<open>
  \<open>d.update(v)\<close>. A dict argument overwrites key by key. An argument that is not a dict is
  iterated as a sequence of key/value pairs: a value that is no container cannot be
  iterated, a character of a string is no pair, and each element of a list must itself be
  a sequence of length 2, its first item the key and its second the value. A list of two
  items or a string of two characters is such an element. \<open>pydict\<close> holds string keys in no
  order, so two cases are outside this model and give \<open>None\<close>: a key that is a number, a
  truth value or \<open>None\<close>, and an element that is itself a dict (iterated by its keys in
  insertion order).
\<close>

definition update_length_error :: "nat \<Rightarrow> nat \<Rightarrow> exn" where
  "update_length_error i n =
     Exn ValueError (''dictionary update sequence element #'' @ py_str_nat i @ '' has length ''
       @ py_str_nat n @ ''; 2 is required'')"

definition update_sequence_error :: "nat \<Rightarrow> exn" where
  "update_sequence_error i =
     Exn TypeError (''cannot convert dictionary update sequence element #'' @ py_str_nat i
       @ '' to a sequence'')"

text \<open>The element at index \<open>i\<close> of the sequence given to \<open>update\<close>.\<close>

definition update_element :: "pydict \<Rightarrow> nat \<Rightarrow> pyval \<Rightarrow> (exn + pydict) option" where
  "update_element d i item =
     (case item of
        PStr s \<Rightarrow>
          (if length s = 2 then Some (Inr (d([s ! 0] \<mapsto> PStr [s ! 1])))
           else Some (Inl (update_length_error i (length s))))
      | PList ys \<Rightarrow>
          (if length ys = 2
           then (case ys ! 0 of
                   PStr k \<Rightarrow> Some (Inr (d(k \<mapsto> ys ! 1)))
                 | PList zs \<Rightarrow> Some (Inl (Exn TypeError (''unhashable type: '' @ quoted ''list'')))
                 | PDict m \<Rightarrow> Some (Inl (Exn TypeError (''unhashable type: '' @ quoted ''dict'')))
                 | _ \<Rightarrow> None)
           else Some (Inl (update_length_error i (length ys))))
      | PDict m \<Rightarrow> None
      | _ \<Rightarrow> Some (Inl (update_sequence_error i)))"

fun update_from_list :: "pydict \<Rightarrow> nat \<Rightarrow> pyval list \<Rightarrow> (exn + pydict) option" where
  "update_from_list d i [] = Some (Inr d)"
| "update_from_list d i (item # items) =
     (case update_element d i item of
        None \<Rightarrow> None
      | Some (Inl e) \<Rightarrow> Some (Inl e)
      | Some (Inr d') \<Rightarrow> update_from_list d' (Suc i) items)"

fun py_dict_update :: "pydict \<Rightarrow> pyval \<Rightarrow> (exn + pydict) option" where
  "py_dict_update d (PDict other) = Some (Inr (d ++ other))"
| "py_dict_update d (PList xs) = update_from_list d 0 xs"
| "py_dict_update d (PStr s) =
     (if s = [] then Some (Inr d) else Some (Inl (update_length_error 0 1)))"
| "py_dict_update d PNone = Some (Inl (Exn TypeError (quoted ''NoneType'' @ '' object is not iterable'')))"
| "py_dict_update d (PBool b) = Some (Inl (Exn TypeError (quoted ''bool'' @ '' object is not iterable'')))"
| "py_dict_update d (PInt i) = Some (Inl (Exn TypeError (quoted ''int'' @ '' object is not iterable'')))"
| "py_dict_update d (PFloat f) = Some (Inl (Exn TypeError (quoted ''float'' @ '' object is not iterable'')))"

subsection \<open>Strings\<close>

text \<open>\<open>str.isspace\<close> on one character: the white space below code point 256.\<close>

definition py_isspace :: "char \<Rightarrow> bool" where
  "py_isspace c \<longleftrightarrow> c \<in> set [CHR 0x09, CHR 0x0A, CHR 0x0B, CHR 0x0C, CHR 0x0D,
     CHR 0x1C, CHR 0x1D, CHR 0x1E, CHR 0x1F, CHR 0x20, CHR 0x85, CHR 0xA0]"

text \<open>\<open>s.strip()\<close>: white space removed at both ends.\<close>

definition py_strip :: "string \<Rightarrow> string" where
  "py_strip s = rev (dropWhile py_isspace (rev (dropWhile py_isspace s)))"

text \<open>\<open>s.lower()\<close>: the upper-case letters below code point 256 have their lower case 32 above.\<close>

definition py_lower_char :: "char \<Rightarrow> char" where
  "py_lower_char c =
     (let n = (of_char c :: nat)
      in if (65 \<le> n \<and> n \<le> 90) \<or> (192 \<le> n \<and> n \<le> 222 \<and> n \<noteq> 215)
         then char_of (n + 32) else c)"

definition py_lower :: "string \<Rightarrow> string" where
  "py_lower s = map py_lower_char s"

text \<open>\<open>s.rfind(c)\<close> for a single character: the last index of \<open>c\<close>, or \<open>-1\<close>.\<close>

fun rfind_from :: "char \<Rightarrow> string \<Rightarrow> nat \<Rightarrow> int \<Rightarrow> int" where
  "rfind_from c [] i found = found"
| "rfind_from c (x # xs) i found = rfind_from c xs (Suc i) (if x = c then int i else found)"

definition py_rfind :: "string \<Rightarrow> char \<Rightarrow> int" where
  "py_rfind s c = rfind_from c s 0 (- 1)"

text \<open>
  \<open>os.path.splitext\<close> (POSIX): the extension starts at the last dot, when that dot comes
  after the last slash and some character between them is not a dot.
\<close>

function splitext_loop :: "string \<Rightarrow> nat \<Rightarrow> nat \<Rightarrow> string \<times> string" where
  "splitext_loop p filenameIndex dotIndex =
     (if filenameIndex < dotIndex
      then (if p ! filenameIndex \<noteq> CHR ''.''
            then (take dotIndex p, drop dotIndex p)
            else splitext_loop p (Suc filenameIndex) dotIndex)
      else (p, []))"
  by pat_completeness auto
termination
  by (relation "measure (\<lambda>(p, filenameIndex, dotIndex). dotIndex - filenameIndex)") auto

definition os_path_splitext :: "string \<Rightarrow> string \<times> string" where
  "os_path_splitext p =
     (let sepIndex = py_rfind p (CHR ''/'');
          dotIndex = py_rfind p (CHR ''.'')
      in if dotIndex > sepIndex
         then splitext_loop p (nat (sepIndex + 1)) (nat dotIndex)
         else (p, []))"

text \<open>\<open>os.path.join(a, b)\<close> (POSIX): an absolute \<open>b\<close> replaces \<open>a\<close>.\<close>

definition os_path_join :: "string \<Rightarrow> string \<Rightarrow> string" where
  "os_path_join a b =
     (if prefix ''/'' b then b
      else if a = [] \<or> suffix ''/'' a then a @ b
      else a @ ''/'' @ b)"

text \<open>
  \<open>split_first needle s\<close> cuts \<open>s\<close> at the first place where \<open>needle\<close> occurs: the text
  before it and the text after it.
\<close>

fun split_first :: "string \<Rightarrow> string \<Rightarrow> (string \<times> string) option" where
  "split_first needle [] = (if needle = [] then Some ([], []) else None)"
| "split_first needle (c # cs) =
     (if prefix needle (c # cs) then Some ([], drop (length needle) (c # cs))
      else map_option (\<lambda>(before, after). (c # before, after)) (split_first needle cs))"

text \<open>
  \<open>re.search(r'```json\n([\s\S]*?)\n```', text)\<close>, giving group 1. The search takes the
  leftmost opening fence after which a closing fence follows, and the lazy group stops at
  the first closing fence. When the first opening fence has no closing fence after it, no
  later one has either, so only the first opening fence needs to be tried.
\<close>

definition fence_open :: string where
  "fence_open = ''```json\<newline>''"

definition fence_close :: string where
  "fence_close = ''\<newline>```''"

definition re_search_fence :: "string \<Rightarrow> string option" where
  "re_search_fence text =
     (case split_first fence_open text of
        None \<Rightarrow> None
      | Some (before, rest) \<Rightarrow>
          (case split_first fence_close rest of
             None \<Rightarrow> None
           | Some (interior, after) \<Rightarrow> Some interior))"


section \<open>The world around app.py\<close>

text \<open>
  What one request can observe and change: the files on disk, by path, and the list of
  calls made to \<open>extract_medical_terms_with_gemini_image\<close> so far, each with the image
  bytes and the MIME type it was given.
\<close>

record state =
  disk :: "string \<Rightarrow> bytes option"
  calls :: "(bytes \<times> string) list"

text \<open>
  The libraries app.py calls, as parameters:
  \<^item> \<open>generate_content env n image_data mime_type\<close>: lines 41 to 55, the \<open>n\<close>-th call of the
    remote model and the read of its reply text; it gives the text or the exception
    raised, a JSONDecodeError being one raised by the call, before \<open>response\<close> is bound;
  \<^item> \<open>json_loads\<close>: \<open>json.loads\<close>;
  \<^item> \<open>convert_from_path\<close>: pdf2image's rasterizer, reading the disk;
  \<^item> \<open>image_save_jpeg\<close>: \<open>image.save(buffer, format="JPEG")\<close> followed by \<open>getvalue()\<close>;
  \<^item> \<open>file_save_error\<close>: the exception with which werkzeug's \<open>file.save(path)\<close> fails at a
    path, if it does.
\<close>

record 'img env =
  generate_content :: "nat \<Rightarrow> bytes \<Rightarrow> string \<Rightarrow> exn + string"
  json_loads :: "string \<Rightarrow> exn + pyval"
  convert_from_path :: "(string \<Rightarrow> bytes option) \<Rightarrow> string \<Rightarrow> exn + 'img list"
  image_save_jpeg :: "'img \<Rightarrow> exn + bytes"
  file_save_error :: "string \<Rightarrow> exn option"

text \<open>An uploaded part of the multipart body, and the request: \<open>request.files\<close> by field name.\<close>

record file_storage =
  filename :: string
  stream :: bytes

record request =
  request_files :: "(string \<times> file_storage) list"

text \<open>\<open>{"page": n, "data": v}\<close>\<close>

record page_result =
  page :: int
  data :: pyval

text \<open>
  What the view function does: return a JSON body with a status, let an exception escape
  to Flask, or fall off its end without a response. \<open>Unmodelled\<close> stands for a run that
  leaves this model (see \<open>py_dict_update\<close>).
\<close>

datatype outcome = Responded pyval nat | Propagated exn | NoResponse | Unmodelled

section \<open>app.py\<close>

definition UPLOAD_FOLDER :: string where
  "UPLOAD_FOLDER = ''Uploads''"

text \<open>\<open>{"key_value_pairs": {}, "extracted_tests": {}}\<close>\<close>

definition default_result :: pyval where
  "default_result = PDict [''key_value_pairs'' \<mapsto> PDict Map.empty, ''extracted_tests'' \<mapsto> PDict Map.empty]"

text \<open>Lines 57 to 62: the string handed to \<open>json.loads\<close>.\<close>

definition json_candidate :: "string \<Rightarrow> string" where
  "json_candidate text =
     (case re_search_fence text of
        Some group1 \<Rightarrow> py_strip group1
      | None \<Rightarrow> py_strip text)"

text \<open>
  Lines 26 to 72. When the model call itself raises a JSONDecodeError, the first handler
  reads \<open>response.text\<close> of a \<open>response\<close> that was never bound, and that error leaves the
  function.
\<close>

definition extract_medical_terms_with_gemini_image ::
  "'img env \<Rightarrow> state \<Rightarrow> bytes \<Rightarrow> string \<Rightarrow> state \<times> (exn + pyval)" where
  "extract_medical_terms_with_gemini_image env s image_data mime_type =
     (let s' = s\<lparr>calls := calls s @ [(image_data, mime_type)]\<rparr>
      in case generate_content env (length (calls s)) image_data mime_type of
           Inl e \<Rightarrow>
             (if exn_class_of e = JSONDecodeError
              then (s', Inl (Exn UnboundLocalError
                     (''cannot access local variable '' @ quoted ''response''
                        @ '' where it is not associated with a value'')))
              else (s', Inr default_result))
         | Inr text \<Rightarrow>
             (case json_loads env (json_candidate text) of
                Inl e \<Rightarrow>
                  (if exn_class_of e = JSONDecodeError
                   then (s', Inr default_result)
                   else (s', Inr default_result))
              | Inr extracted_data \<Rightarrow> (s', Inr extracted_data)))"

text \<open>Lines 75 to 82.\<close>

definition convert_pdf_to_images :: "'img env \<Rightarrow> state \<Rightarrow> string \<Rightarrow> 'img list" where
  "convert_pdf_to_images env s pdf_path =
     (case convert_from_path env (disk s) pdf_path of
        Inr images \<Rightarrow> images
      | Inl e \<Rightarrow> [])"

text \<open>Lines 95 to 101: the loop over the pages, \<open>idx\<close> counting from 0.\<close>

fun process_pages ::
  "'img env \<Rightarrow> state \<Rightarrow> 'img list \<Rightarrow> nat \<Rightarrow> page_result list \<Rightarrow> state \<times> (exn + page_result list)" where
  "process_pages env s [] idx all_results = (s, Inr all_results)"
| "process_pages env s (img # images) idx all_results =
     (case image_save_jpeg env img of
        Inl e \<Rightarrow> (s, Inl e)
      | Inr image_data \<Rightarrow>
          (case extract_medical_terms_with_gemini_image env s image_data ''image/jpeg'' of
             (s', Inl e) \<Rightarrow> (s', Inl e)
           | (s', Inr result) \<Rightarrow>
               process_pages env s' images (Suc idx)
                 (all_results @ [\<lparr>page = int idx + 1, data = result\<rparr>])))"

text \<open>Lines 85 to 110.\<close>

definition process_uploaded_file ::
  "'img env \<Rightarrow> state \<Rightarrow> string \<Rightarrow> state \<times> (exn + page_result list)" where
  "process_uploaded_file env s uploaded_file_path =
     (let file_extension = py_lower (snd (os_path_splitext uploaded_file_path))
      in if file_extension \<in> set [''.pdf'']
         then (let images = convert_pdf_to_images env s uploaded_file_path
               in if images = []
                  then (s, Inr [\<lparr>page = 1, data = default_result\<rparr>])
                  else process_pages env s images 0 [])
         else if file_extension \<in> set [''.jpg'', ''.jpeg'', ''.png'']
         then (case disk s uploaded_file_path of
                 None \<Rightarrow>
                   (s, Inl (Exn FileNotFoundError
                         (''[Errno 2] No such file or directory: '' @ py_repr uploaded_file_path)))
               | Some image_data \<Rightarrow>
                   (case extract_medical_terms_with_gemini_image env s image_data ''image/jpeg'' of
                      (s', Inl e) \<Rightarrow> (s', Inl e)
                    | (s', Inr result) \<Rightarrow> (s', Inr [\<lparr>page = 1, data = result\<rparr>])))
         else (s, Inl (Exn ValueError
                 (''Unsupported file type: '' @ file_extension
                    @ ''. Please upload a PDF, JPEG, or PNG file.''))))"

text \<open>\<open>file.save(file_path)\<close>: the bytes go to disk at that path, unless the write fails.\<close>

definition file_save :: "'img env \<Rightarrow> state \<Rightarrow> file_storage \<Rightarrow> string \<Rightarrow> exn + state" where
  "file_save env s file file_path =
     (case file_save_error env file_path of
        Some e \<Rightarrow> Inl e
      | None \<Rightarrow> Inr (s\<lparr>disk := (disk s)(file_path \<mapsto> stream file)\<rparr>))"

text \<open>Line 128: the condition of the empty-result check, read from left to right.\<close>

definition is_empty_result :: "page_result list \<Rightarrow> exn + bool" where
  "is_empty_result results =
     (if results = [] then Inr True
      else if length results = 1
      then (case py_getitem (data (results ! 0)) ''key_value_pairs'' of
              Inl e \<Rightarrow> Inl e
            | Inr kv \<Rightarrow>
                (if py_truthy kv then Inr False
                 else (case py_getitem (data (results ! 0)) ''extracted_tests'' of
                         Inl e \<Rightarrow> Inl e
                       | Inr et \<Rightarrow> Inr (\<not> py_truthy et))))
      else Inr False)"

text \<open>Lines 136 to 139: the merge loop over the pages.\<close>

fun combine_pages ::
  "page_result list \<Rightarrow> pydict \<Rightarrow> pydict \<Rightarrow> (exn + pydict \<times> pydict) option" where
  "combine_pages [] combined_key_value_pairs combined_extracted_tests =
     Some (Inr (combined_key_value_pairs, combined_extracted_tests))"
| "combine_pages (result # results) combined_key_value_pairs combined_extracted_tests =
     (let page_data = data result
      in case py_getitem page_data ''key_value_pairs'' of
           Inl e \<Rightarrow> Some (Inl e)
         | Inr kv \<Rightarrow>
             (case py_dict_update combined_key_value_pairs kv of
                None \<Rightarrow> None
              | Some (Inl e) \<Rightarrow> Some (Inl e)
              | Some (Inr combined_key_value_pairs') \<Rightarrow>
                  (case py_getitem page_data ''extracted_tests'' of
                     Inl e \<Rightarrow> Some (Inl e)
                   | Inr et \<Rightarrow>
                       (case py_dict_update combined_extracted_tests et of
                          None \<Rightarrow> None
                        | Some (Inl e) \<Rightarrow> Some (Inl e)
                        | Some (Inr combined_extracted_tests') \<Rightarrow>
                            combine_pages results combined_key_value_pairs' combined_extracted_tests'))))"

text \<open>\<open>jsonify({"error": message}), status\<close>\<close>

definition error_response :: "string \<Rightarrow> nat \<Rightarrow> outcome" where
  "error_response message status = Responded (PDict [''error'' \<mapsto> PStr message]) status"

text \<open>Line 147: the handler of the \<open>try\<close> block.\<close>

definition processing_failed :: "exn \<Rightarrow> outcome" where
  "processing_failed e = error_response (''Processing failed: '' @ str_exn e) 500"

text \<open>Lines 128 to 145: from the dispatcher's results to the response.\<close>

definition respond_to_results :: "page_result list \<Rightarrow> outcome" where
  "respond_to_results results =
     (case is_empty_result results of
        Inl e \<Rightarrow> processing_failed e
      | Inr True \<Rightarrow>
          error_response
            ''Failed to extract data from the file. Ensure the file contains readable medical report data.''
            500
      | Inr False \<Rightarrow>
          (if length results = 1
           then Responded (PDict [''data'' \<mapsto> data (results ! 0)]) 200
           else (case combine_pages results Map.empty Map.empty of
                   None \<Rightarrow> Unmodelled
                 | Some (Inl e) \<Rightarrow> processing_failed e
                 | Some (Inr (combined_key_value_pairs, combined_extracted_tests)) \<Rightarrow>
                     Responded
                       (PDict [''data'' \<mapsto>
                          PDict [''key_value_pairs'' \<mapsto> PDict combined_key_value_pairs,
                                 ''extracted_tests'' \<mapsto> PDict combined_extracted_tests]])
                       200)))"

text \<open>
  Lines 113 to 147. \<open>'file' in request.files\<close> and \<open>request.files['file']\<close> look up the
  first part named \<open>file\<close>; \<open>if file:\<close> tests that the filename is not empty.
\<close>

definition upload_file :: "'img env \<Rightarrow> state \<Rightarrow> request \<Rightarrow> state \<times> outcome" where
  "upload_file env s req =
     (case map_of (request_files req) ''file'' of
        None \<Rightarrow> (s, error_response ''No file part in the request'' 400)
      | Some file \<Rightarrow>
          (if filename file = [] then (s, error_response ''No file selected'' 400)
           else if filename file \<noteq> []
           then (let file_path = os_path_join UPLOAD_FOLDER (filename file)
                 in case file_save env s file file_path of
                      Inl e \<Rightarrow> (s, Propagated e)
                    | Inr s1 \<Rightarrow>
                        (case process_uploaded_file env s1 file_path of
                           (s2, Inl e) \<Rightarrow> (s2, processing_failed e)
                         | (s2, Inr results) \<Rightarrow> (s2, respond_to_results results)))
           else (s, NoResponse)))"


section \<open>Notions of the specification\<close>

text \<open>
  A fenced block of \<open>text\<close>: an opening fence, an interior, a closing fence. The regular
  expression search returns the block that starts leftmost and, of the blocks starting
  there, the one with the shortest interior.
\<close>

definition fenced_block :: "string \<Rightarrow> string \<Rightarrow> string \<Rightarrow> string \<Rightarrow> bool" where
  "fenced_block text before interior after \<longleftrightarrow>
     text = before @ fence_open @ interior @ fence_close @ after"

definition first_fenced_block :: "string \<Rightarrow> string \<Rightarrow> bool" where
  "first_fenced_block text interior \<longleftrightarrow>
     (\<exists>before after.
        fenced_block text before interior after \<and>
        (\<forall>before' interior' after'.
           fenced_block text before' interior' after' \<longrightarrow>
             length before < length before' \<or>
             (length before = length before' \<and> length interior \<le> length interior')))"

text \<open>
  \<open>t\<close> is \<open>s\<close> trimmed: \<open>s\<close> is \<open>t\<close> between two runs of white space, and \<open>t\<close> neither
  starts nor ends with white space.
\<close>

definition trimmed :: "string \<Rightarrow> string \<Rightarrow> bool" where
  "trimmed s t \<longleftrightarrow>
     (\<exists>l r. s = l @ t @ r \<and> (\<forall>c \<in> set l. py_isspace c) \<and> (\<forall>c \<in> set r. py_isspace c)) \<and>
     (t \<noteq> [] \<longrightarrow> \<not> py_isspace (hd t) \<and> \<not> py_isspace (last t))"

text \<open>A well-formed ExtractionResult: a mapping with the two keys.\<close>

definition is_extraction_result :: "pyval \<Rightarrow> bool" where
  "is_extraction_result v =
     (case v of
        PDict d \<Rightarrow> d ''key_value_pairs'' \<noteq> None \<and> d ''extracted_tests'' \<noteq> None
      | _ \<Rightarrow> False)"

text \<open>The mapping stored under a key of an ExtractionResult, if there is one.\<close>

definition mapping_of :: "string \<Rightarrow> pyval \<Rightarrow> pydict option" where
  "mapping_of field v =
     (case v of
        PDict d \<Rightarrow> (case d field of Some (PDict m) \<Rightarrow> Some m | _ \<Rightarrow> None)
      | _ \<Rightarrow> None)"

definition page_mapping :: "string \<Rightarrow> page_result \<Rightarrow> pydict" where
  "page_mapping field r = (case mapping_of field (data r) of Some m \<Rightarrow> m | None \<Rightarrow> Map.empty)"

text \<open>A PageResult whose data holds a mapping under each of the two keys.\<close>

definition is_page_result :: "page_result \<Rightarrow> bool" where
  "is_page_result r \<longleftrightarrow>
     mapping_of ''key_value_pairs'' (data r) \<noteq> None \<and> mapping_of ''extracted_tests'' (data r) \<noteq> None"

text \<open>Merging mappings in page order, a later page overwriting an earlier one.\<close>

definition merge_in_page_order :: "pydict list \<Rightarrow> pydict" where
  "merge_in_page_order pages = foldl (++) Map.empty pages"

text \<open>A key present in exactly one page keeps that page's value.\<close>

definition single_page_keys_kept :: "pydict list \<Rightarrow> pydict \<Rightarrow> bool" where
  "single_page_keys_kept pages combined \<longleftrightarrow>
     (\<forall>k i v. i < length pages \<and> (pages ! i) k = Some v \<and>
               (\<forall>j < length pages. j \<noteq> i \<longrightarrow> (pages ! j) k = None)
               \<longrightarrow> combined k = Some v)"

text \<open>A key present in two pages has the later page's value.\<close>

definition later_page_wins :: "pydict list \<Rightarrow> pydict \<Rightarrow> bool" where
  "later_page_wins pages combined \<longleftrightarrow>
     (\<forall>k i j v w. i < j \<and> j < length pages \<and> (pages ! i) k = Some v \<and> (pages ! j) k = Some w \<and>
                   (\<forall>l < length pages. l \<noteq> i \<and> l \<noteq> j \<longrightarrow> (pages ! l) k = None)
                   \<longrightarrow> combined k = Some w)"

text \<open>
  The request carries a file with a name, the write to disk succeeds, and the dispatcher
  returns \<open>results\<close>, leaving the state \<open>s'\<close>.
\<close>

definition dispatcher_returns ::
  "'img env \<Rightarrow> state \<Rightarrow> request \<Rightarrow> state \<Rightarrow> page_result list \<Rightarrow> bool" where
  "dispatcher_returns env s req s' results \<longleftrightarrow>
     (\<exists>file s1.
        map_of (request_files req) ''file'' = Some file \<and> filename file \<noteq> [] \<and>
        file_save env s file (os_path_join UPLOAD_FOLDER (filename file)) = Inr s1 \<and>
        process_uploaded_file env s1 (os_path_join UPLOAD_FOLDER (filename file)) = (s', Inr results))"

section \<open>An example environment\<close>

text \<open>
  Model replies and what \<open>json.loads\<close> makes of them. In the example environment a PDF
  has one page per byte of the file, the page's JPEG bytes are that byte, and the model's
  reply is chosen by the image bytes.
\<close>

definition hemoglobin_json :: string where
  \<open>hemoglobin_json = ''{"key_value_pairs": {}, "extracted_tests": {"hemoglobin": "13.5 g/dL"}}''\<close>

definition hemoglobin_reply :: string where
  \<open>hemoglobin_reply =
     ''```json\<newline>{"key_value_pairs": {}, "extracted_tests": {"hemoglobin": "13.5 g/dL"}}\<newline>```''\<close>

definition hemoglobin_result :: pyval where
  "hemoglobin_result =
     PDict [''key_value_pairs'' \<mapsto> PDict Map.empty,
            ''extracted_tests'' \<mapsto> PDict [''hemoglobin'' \<mapsto> PStr ''13.5 g/dL'']]"

definition second_page_json :: string where
  \<open>second_page_json =
     ''{"key_value_pairs": {"name": "A"}, "extracted_tests": {"hemoglobin": "14.0 g/dL", "creatinine": "1.1 mg/dL"}}''\<close>

definition second_page_result :: pyval where
  "second_page_result =
     PDict [''key_value_pairs'' \<mapsto> PDict [''name'' \<mapsto> PStr ''A''],
            ''extracted_tests'' \<mapsto> PDict [''hemoglobin'' \<mapsto> PStr ''14.0 g/dL'',
                                           ''creatinine'' \<mapsto> PStr ''1.1 mg/dL'']]"

definition empty_json :: string where
  \<open>empty_json = ''{"key_value_pairs": {}, "extracted_tests": {}}''\<close>

text \<open>
  The hemoglobin reply with prose before the fence and white space around the JSON, and
  the empty result between all the white-space characters.
\<close>

definition padded_reply :: string where
  \<open>padded_reply =
     ''Here is the data:\<newline>```json\<newline>  {"key_value_pairs": {}, "extracted_tests": {"hemoglobin": "13.5 g/dL"}} \<newline>\<newline>```\<newline>''\<close>

definition all_white_space :: string where
  "all_white_space = [CHR 0x09, CHR 0x0A, CHR 0x0B, CHR 0x0C, CHR 0x0D,
     CHR 0x1C, CHR 0x1D, CHR 0x1E, CHR 0x1F, CHR 0x20, CHR 0x85, CHR 0xA0]"

definition padded_json :: string where
  "padded_json = all_white_space @ empty_json @ all_white_space"

definition example_json_loads :: "string \<Rightarrow> exn + pyval" where
  "example_json_loads t =
     (if t = hemoglobin_json then Inr hemoglobin_result
      else if t = second_page_json then Inr second_page_result
      else if t = empty_json then Inr default_result
      else if t = ''{}'' then Inr (PDict Map.empty)
      else Inl (Exn JSONDecodeError ''Expecting value: line 1 column 1 (char 0)''))"

definition example_reply :: "bytes \<Rightarrow> string" where
  "example_reply image_data =
     (if image_data = [1] then hemoglobin_reply
      else if image_data = [2] then second_page_json
      else if image_data = [3] then empty_json
      else if image_data = [4] then ''{}''
      else ''The image is not a medical report.'')"

definition example_env :: "8 word env" where
  "example_env =
     \<lparr>generate_content = (\<lambda>n image_data mime_type. Inr (example_reply image_data)),
      json_loads = example_json_loads,
      convert_from_path =
        (\<lambda>files path. case files path of
           None \<Rightarrow> Inl (Exn OtherException ''Unable to get page count.'')
         | Some content \<Rightarrow> Inr content),
      image_save_jpeg = (\<lambda>img. Inr [img]),
      file_save_error = (\<lambda>path. None)\<rparr>"

text \<open>The example environment with a model client whose call fails with a JSONDecodeError.\<close>

definition decode_error_env :: "8 word env" where
  "decode_error_env =
     example_env\<lparr>generate_content :=
       (\<lambda>n image_data mime_type.
          Inl (Exn JSONDecodeError ''Expecting value: line 1 column 1 (char 0)''))\<rparr>"

definition empty_state :: state where
  "empty_state = \<lparr>disk = Map.empty, calls = []\<rparr>"

text \<open>A request uploading one file under the field name \<open>file\<close>.\<close>

definition upload :: "string \<Rightarrow> bytes \<Rightarrow> request" where
  "upload name content = \<lparr>request_files = [(''file'', \<lparr>filename = name, stream = content\<rparr>)]\<rparr>"

section \<open>The fence search finds the first fenced block\<close>

lemma split_first_Some:
  "split_first needle s = Some (a, b) \<Longrightarrow> s = a @ needle @ b"
proof (induction s arbitrary: a)
  case Nil
  then show ?case by (simp split: if_splits)
next
  case (Cons c cs)
  show ?case
  proof (cases "prefix needle (c # cs)")
    case True
    with Cons.prems have "a = []" "b = drop (length needle) (c # cs)" by simp_all
    with True show ?thesis by (auto simp: prefix_def)
  next
    case False
    with Cons.prems obtain a' where "split_first needle cs = Some (a', b)" "a = c # a'"
      by auto
    with Cons.IH show ?thesis by simp
  qed
qed

lemma split_first_occurrence:
  "s = a' @ needle @ b' \<Longrightarrow> \<exists>a b. split_first needle s = Some (a, b) \<and> length a \<le> length a'"
proof (induction s arbitrary: a')
  case Nil
  then show ?case by simp
next
  case (Cons c cs)
  show ?case
  proof (cases "prefix needle (c # cs)")
    case True
    then show ?thesis by simp
  next
    case False
    with Cons.prems have "a' \<noteq> []" by (auto simp: prefix_def)
    then obtain a'' where a': "a' = c # a''" using Cons.prems by (cases a') auto
    with Cons.prems have "cs = a'' @ needle @ b'" by simp
    from Cons.IH[OF this] obtain a b where "split_first needle cs = Some (a, b)" "length a \<le> length a''"
      by blast
    with False a' show ?thesis by simp
  qed
qed

lemma append_eq_shorter_prefix:
  "p @ r = q @ t \<Longrightarrow> length p \<le> length q \<Longrightarrow> \<exists>us. r = us @ t"
  by (auto simp: append_eq_append_conv2)

lemma re_search_fence_Some_iff:
  "re_search_fence text = Some interior \<longleftrightarrow> first_fenced_block text interior"
proof
  assume r: "re_search_fence text = Some interior"
  then obtain before rest after where
    o: "split_first fence_open text = Some (before, rest)" and
    c: "split_first fence_close rest = Some (interior, after)"
    by (auto simp: re_search_fence_def split: option.splits)
  have t: "text = before @ fence_open @ rest" using split_first_Some[OF o] .
  have rr: "rest = interior @ fence_close @ after" using split_first_Some[OF c] .
  have fb: "fenced_block text before interior after"
    using t rr by (simp add: fenced_block_def)
  have min: "length before < length before' \<or>
             (length before = length before' \<and> length interior \<le> length interior')"
    if f': "fenced_block text before' interior' after'" for before' interior' after'
  proof -
    have t': "text = before' @ fence_open @ (interior' @ fence_close @ after')"
      using f' by (simp add: fenced_block_def)
    from split_first_occurrence[OF t'] o have le: "length before \<le> length before'" by auto
    show ?thesis
    proof (cases "length before = length before'")
      case True
      with t t' have "before = before'" by (metis append_eq_append_conv)
      with t t' have "rest = interior' @ fence_close @ after'" by simp
      from split_first_occurrence[OF this] c have "length interior \<le> length interior'" by auto
      with True show ?thesis by simp
    next
      case False
      with le show ?thesis by simp
    qed
  qed
  show "first_fenced_block text interior"
    unfolding first_fenced_block_def using fb min by blast
next
  assume "first_fenced_block text interior"
  then obtain before after where
    fb: "fenced_block text before interior after" and
    min: "\<And>before' interior' after'. fenced_block text before' interior' after' \<Longrightarrow>
            length before < length before' \<or>
            (length before = length before' \<and> length interior \<le> length interior')"
    unfolding first_fenced_block_def by blast
  have t: "text = before @ fence_open @ (interior @ fence_close @ after)"
    using fb by (simp add: fenced_block_def)
  from split_first_occurrence[OF t] obtain b0 rest0 where
    o: "split_first fence_open text = Some (b0, rest0)" and le: "length b0 \<le> length before"
    by blast
  have t0: "text = b0 @ fence_open @ rest0" using split_first_Some[OF o] .
  have "\<exists>mid. rest0 = mid @ fence_close @ after"
  proof -
    have "length (b0 @ fence_open) \<le> length (before @ fence_open)" using le by simp
    moreover have "(b0 @ fence_open) @ rest0 = (before @ fence_open) @ (interior @ fence_close @ after)"
      using t t0 by simp
    ultimately obtain us where "rest0 = us @ (interior @ fence_close @ after)"
      using append_eq_shorter_prefix by blast
    then have "rest0 = (us @ interior) @ fence_close @ after" by simp
    then show ?thesis by blast
  qed
  then obtain mid where "rest0 = mid @ fence_close @ after" by blast
  from split_first_occurrence[OF this] obtain i0 a0 where
    c: "split_first fence_close rest0 = Some (i0, a0)" by blast
  have r0: "rest0 = i0 @ fence_close @ a0" using split_first_Some[OF c] .
  have fb0: "fenced_block text b0 i0 a0" using t0 r0 by (simp add: fenced_block_def)
  from min[OF fb0] le have eq: "length before = length b0" and le2: "length interior \<le> length i0"
    by auto
  from eq t t0 have "before = b0" by (metis append_eq_append_conv)
  with t t0 have rest0: "rest0 = interior @ fence_close @ after" by simp
  from split_first_occurrence[OF rest0] c have "length i0 \<le> length interior" by auto
  with le2 have "length i0 = length interior" by simp
  with rest0 r0 have "i0 = interior" by (metis append_eq_append_conv)
  with o c show "re_search_fence text = Some interior"
    by (simp add: re_search_fence_def)
qed

lemma re_search_fence_None_iff:
  "re_search_fence text = None \<longleftrightarrow> (\<forall>before interior after. \<not> fenced_block text before interior after)"
proof -
  have "re_search_fence text = None \<longleftrightarrow> (\<forall>interior. re_search_fence text \<noteq> Some interior)"
    by (cases "re_search_fence text") auto
  also have "\<dots> \<longleftrightarrow> (\<forall>interior. \<not> first_fenced_block text interior)"
    by (simp add: re_search_fence_Some_iff)
  also have "\<dots> \<longleftrightarrow> (\<forall>before interior after. \<not> fenced_block text before interior after)"
  proof
    assume n: "\<forall>interior. \<not> first_fenced_block text interior"
    show "\<forall>before interior after. \<not> fenced_block text before interior after"
    proof (intro allI notI)
      fix before interior after
      assume "fenced_block text before interior after"
      then have t: "text = before @ fence_open @ (interior @ fence_close @ after)"
        by (simp add: fenced_block_def)
      from split_first_occurrence[OF t] obtain b0 rest0 where
        o: "split_first fence_open text = Some (b0, rest0)" and le: "length b0 \<le> length before"
        by blast
      have t0: "text = b0 @ fence_open @ rest0" using split_first_Some[OF o] .
      have "length (b0 @ fence_open) \<le> length (before @ fence_open)" using le by simp
      moreover have "(b0 @ fence_open) @ rest0 = (before @ fence_open) @ (interior @ fence_close @ after)"
        using t t0 by simp
      ultimately obtain us where "rest0 = us @ (interior @ fence_close @ after)"
        using append_eq_shorter_prefix by blast
      then have "rest0 = (us @ interior) @ fence_close @ after" by simp
      from split_first_occurrence[OF this] obtain i0 a0 where
        "split_first fence_close rest0 = Some (i0, a0)" by blast
      with o have "re_search_fence text = Some i0" by (simp add: re_search_fence_def)
      with n show False by (simp add: re_search_fence_Some_iff)
    qed
  next
    assume "\<forall>before interior after. \<not> fenced_block text before interior after"
    then show "\<forall>interior. \<not> first_fenced_block text interior"
      by (auto simp: first_fenced_block_def)
  qed
  finally show ?thesis .
qed

section \<open>Merging pages\<close>

lemma upload_file_dispatch:
  "dispatcher_returns env s req s' results \<Longrightarrow>
   upload_file env s req = (s', respond_to_results results)"
  by (auto simp: dispatcher_returns_def upload_file_def)

lemma mapping_of_getitem:
  "mapping_of field v = Some m \<Longrightarrow> py_getitem v field = Inr (PDict m)"
  by (auto simp: mapping_of_def split: pyval.splits option.splits)

lemma combine_pages_mappings:
  "\<forall>r \<in> set results. is_page_result r \<Longrightarrow>
   combine_pages results ckv cet =
     Some (Inr (foldl (++) ckv (map (page_mapping ''key_value_pairs'') results),
                foldl (++) cet (map (page_mapping ''extracted_tests'') results)))"
proof (induction results arbitrary: ckv cet)
  case Nil
  then show ?case by simp
next
  case (Cons r results)
  from Cons.prems obtain kv et where
    kv: "mapping_of ''key_value_pairs'' (data r) = Some kv" and
    et: "mapping_of ''extracted_tests'' (data r) = Some et"
    by (auto simp: is_page_result_def)
  have "combine_pages (r # results) ckv cet = combine_pages results (ckv ++ kv) (cet ++ et)"
    using mapping_of_getitem[OF kv] mapping_of_getitem[OF et] by simp
  also have "\<dots> = Some (Inr (foldl (++) (ckv ++ kv) (map (page_mapping ''key_value_pairs'') results),
                foldl (++) (cet ++ et) (map (page_mapping ''extracted_tests'') results)))"
    using Cons.IH Cons.prems by simp
  finally show ?case using kv et by (simp add: page_mapping_def [of _ r])
qed

lemma foldl_map_add_last:
  "i < length pages \<Longrightarrow> (pages ! i) k = Some v \<Longrightarrow>
   (\<forall>j. i < j \<and> j < length pages \<longrightarrow> (pages ! j) k = None) \<Longrightarrow>
   foldl (++) m pages k = Some v"
proof (induction pages arbitrary: i rule: rev_induct)
  case Nil
  then show ?case by simp
next
  case (snoc p ps)
  show ?case
  proof (cases "i = length ps")
    case True
    with snoc.prems show ?thesis by (simp add: map_add_def)
  next
    case False
    with snoc.prems have i: "i < length ps" by simp
    with snoc.prems have v: "(ps ! i) k = Some v" by (simp add: nth_append)
    have none: "\<forall>j. i < j \<and> j < length ps \<longrightarrow> (ps ! j) k = None"
    proof (intro allI impI)
      fix j assume j: "i < j \<and> j < length ps"
      then have "((ps @ [p]) ! j) k = None" using snoc.prems(3) by simp
      with j show "(ps ! j) k = None" by (simp add: nth_append)
    qed
    have "p k = None" using snoc.prems(3) i by (metis length_append_singleton lessI nth_append_length)
    then have "foldl (++) m (ps @ [p]) k = foldl (++) m ps k" by (simp add: map_add_def)
    with snoc.IH[OF i v none] show ?thesis by simp
  qed
qed

lemma merge_single_page_keys_kept:
  "single_page_keys_kept pages (merge_in_page_order pages)"
  unfolding single_page_keys_kept_def merge_in_page_order_def
  by (intro allI impI foldl_map_add_last) auto

lemma merge_later_page_wins:
  "later_page_wins pages (merge_in_page_order pages)"
  unfolding later_page_wins_def merge_in_page_order_def
proof (intro allI impI)
  fix k i j v w
  assume a: "i < j \<and> j < length pages \<and> (pages ! i) k = Some v \<and> (pages ! j) k = Some w \<and>
        (\<forall>l<length pages. l \<noteq> i \<and> l \<noteq> j \<longrightarrow> (pages ! l) k = None)"
  show "foldl (++) Map.empty pages k = Some w"
    by (rule foldl_map_add_last[of j]) (use a in auto)
qed

lemma respond_many:
  assumes "2 \<le> length results" "\<forall>r \<in> set results. is_page_result r"
  shows "respond_to_results results =
     Responded (PDict [''data'' \<mapsto>
        PDict [''key_value_pairs'' \<mapsto> PDict (merge_in_page_order (map (page_mapping ''key_value_pairs'') results)),
               ''extracted_tests'' \<mapsto> PDict (merge_in_page_order (map (page_mapping ''extracted_tests'') results))]]) 200"
proof -
  have e: "is_empty_result results = Inr False"
    using assms(1) by (auto simp: is_empty_result_def)
  show ?thesis
    using assms(1) by (simp add: respond_to_results_def e combine_pages_mappings[OF assms(2)] merge_in_page_order_def)
qed

section \<open>The disk is only ever written by the upload\<close>

lemma process_pages_disk:
  "disk (fst (process_pages env s images idx all_results)) = disk s"
proof (induction images arbitrary: s idx all_results)
  case Nil
  then show ?case by simp
next
  case (Cons img images)
  show ?case
  proof (cases "image_save_jpeg env img")
    case (Inl e)
    then show ?thesis by simp
  next
    case (Inr image_data)
    obtain s' r where x: "extract_medical_terms_with_gemini_image env s image_data ''image/jpeg'' = (s', r)"
      by (cases "extract_medical_terms_with_gemini_image env s image_data ''image/jpeg''")
    then have d: "disk s' = disk s"
      by (auto simp: extract_medical_terms_with_gemini_image_def Let_def split: sum.splits if_splits)
    show ?thesis
    proof (cases r)
      case (Inl e)
      with Inr x d show ?thesis by simp
    next
      case (Inr result)
      with \<open>image_save_jpeg env img = Inr image_data\<close> x d Cons.IH show ?thesis by simp
    qed
  qed
qed

lemma extract_disk:
  "disk (fst (extract_medical_terms_with_gemini_image env s image_data mime_type)) = disk s"
  by (auto simp: extract_medical_terms_with_gemini_image_def Let_def split: sum.splits if_splits)

lemma process_uploaded_file_disk:
  "disk (fst (process_uploaded_file env s path)) = disk s"
proof -
  have "disk (fst (case extract_medical_terms_with_gemini_image env s image_data ''image/jpeg'' of
                     (s', Inl e) \<Rightarrow> (s', Inl e)
                   | (s', Inr result) \<Rightarrow> (s', Inr [\<lparr>page = 1, data = result\<rparr>]))) = disk s" for image_data
    using extract_disk[of env s image_data "''image/jpeg''"]
    by (auto split: prod.splits sum.splits)
  then show ?thesis
    by (simp add: process_uploaded_file_def Let_def process_pages_disk split: option.splits)
qed

lemma upload_file_disk:
  "disk (fst (upload_file env s req)) =
     (case map_of (request_files req) ''file'' of
        None \<Rightarrow> disk s
      | Some file \<Rightarrow>
          if filename file = [] \<or> file_save_error env (os_path_join UPLOAD_FOLDER (filename file)) \<noteq> None
          then disk s
          else (disk s)(os_path_join UPLOAD_FOLDER (filename file) \<mapsto> stream file))"
proof (cases "map_of (request_files req) ''file''")
  case None
  then show ?thesis by (simp add: upload_file_def)
next
  case (Some f)
  define path where "path = os_path_join UPLOAD_FOLDER (filename f)"
  show ?thesis
  proof (cases "filename f = [] \<or> file_save_error env path \<noteq> None")
    case True
    with Some show ?thesis
      by (auto simp: upload_file_def file_save_def path_def)
  next
    case False
    define s1 where "s1 = s\<lparr>disk := (disk s)(path \<mapsto> stream f)\<rparr>"
    have "disk (fst (process_uploaded_file env s1 path)) = disk s1"
      by (rule process_uploaded_file_disk)
    then have "disk (fst (case process_uploaded_file env s1 path of
                 (s2, Inl e) \<Rightarrow> (s2, processing_failed e)
               | (s2, Inr results) \<Rightarrow> (s2, respond_to_results results))) = disk s1"
      by (auto split: prod.splits sum.splits)
    with Some False show ?thesis
      by (simp add: upload_file_def file_save_def path_def s1_def Let_def)
  qed
qed

section \<open>Runs in the example environment\<close>

lemma join_pdf: "os_path_join UPLOAD_FOLDER ''report.pdf'' = ''Uploads/report.pdf''" by code_simp
lemma ext_pdf: "py_lower (snd (os_path_splitext ''Uploads/report.pdf'')) = ''.pdf''" by code_simp
lemma join_png: "os_path_join UPLOAD_FOLDER ''scan.PNG'' = ''Uploads/scan.PNG''" by code_simp
lemma ext_png: "py_lower (snd (os_path_splitext ''Uploads/scan.PNG'')) = ''.png''" by code_simp
lemma join_gif: "os_path_join UPLOAD_FOLDER ''scan.gif'' = ''Uploads/scan.gif''" by code_simp
lemma ext_gif: "py_lower (snd (os_path_splitext ''Uploads/scan.gif'')) = ''.gif''" by code_simp
lemma join_abs: "os_path_join UPLOAD_FOLDER ''/tmp/scan.gif'' = ''/tmp/scan.gif''" by code_simp
lemma ext_abs: "py_lower (snd (os_path_splitext ''/tmp/scan.gif'')) = ''.gif''" by code_simp

lemma candidate_hemoglobin: "json_candidate hemoglobin_reply = hemoglobin_json" by code_simp
lemma candidate_second: "json_candidate second_page_json = second_page_json" by code_simp
lemma candidate_empty: "json_candidate empty_json = empty_json" by code_simp
lemma candidate_braces: "json_candidate ''{}'' = ''{}''" by code_simp
lemma candidate_prose: "json_candidate ''The image is not a medical report.'' = ''The image is not a medical report.''" by code_simp

lemma loads_hemoglobin: "example_json_loads hemoglobin_json = Inr hemoglobin_result"
  by (simp add: example_json_loads_def)
lemma loads_second: "example_json_loads second_page_json = Inr second_page_result"
proof -
  have "second_page_json \<noteq> hemoglobin_json" by code_simp
  then show ?thesis by (simp add: example_json_loads_def)
qed
lemma loads_empty: "example_json_loads empty_json = Inr default_result"
proof -
  have "empty_json \<noteq> hemoglobin_json" "empty_json \<noteq> second_page_json" by code_simp+
  then show ?thesis by (simp add: example_json_loads_def)
qed
lemma loads_braces: "example_json_loads ''{}'' = Inr (PDict Map.empty)"
proof -
  have "''{}'' \<noteq> hemoglobin_json" "''{}'' \<noteq> second_page_json" "''{}'' \<noteq> empty_json"
    by code_simp+
  then show ?thesis by (simp add: example_json_loads_def)
qed

lemma loads_prose: "example_json_loads ''The image is not a medical report.'' = Inl (Exn JSONDecodeError ''Expecting value: line 1 column 1 (char 0)'')"
proof -
  have "''The image is not a medical report.'' \<noteq> hemoglobin_json" "''The image is not a medical report.'' \<noteq> second_page_json" "''The image is not a medical report.'' \<noteq> empty_json" by code_simp+
  then show ?thesis by (simp add: example_json_loads_def)
qed

lemma example_extract_1:
  "extract_medical_terms_with_gemini_image example_env s [1] mime_type =
     (s\<lparr>calls := calls s @ [([1], mime_type)]\<rparr>, Inr hemoglobin_result)"
  by (simp add: extract_medical_terms_with_gemini_image_def example_env_def example_reply_def
      candidate_hemoglobin loads_hemoglobin)
lemma example_extract_2:
  "extract_medical_terms_with_gemini_image example_env s [2] mime_type =
     (s\<lparr>calls := calls s @ [([2], mime_type)]\<rparr>, Inr second_page_result)"
  by (simp add: extract_medical_terms_with_gemini_image_def example_env_def example_reply_def
      candidate_second loads_second)
lemma example_extract_3:
  "extract_medical_terms_with_gemini_image example_env s [3] mime_type =
     (s\<lparr>calls := calls s @ [([3], mime_type)]\<rparr>, Inr default_result)"
  by (simp add: extract_medical_terms_with_gemini_image_def example_env_def example_reply_def
      candidate_empty loads_empty)
lemma example_extract_4:
  "extract_medical_terms_with_gemini_image example_env s [4] mime_type =
     (s\<lparr>calls := calls s @ [([4], mime_type)]\<rparr>, Inr (PDict Map.empty))"
  by (simp add: extract_medical_terms_with_gemini_image_def example_env_def example_reply_def
      candidate_braces loads_braces)
lemma example_two_pages:
  "dispatcher_returns example_env empty_state (upload ''report.pdf'' [1, 2])
     \<lparr>disk = [''Uploads/report.pdf'' \<mapsto> [1, 2]], calls = [([1], ''image/jpeg''), ([2], ''image/jpeg'')]\<rparr>
     [\<lparr>page = 1, data = hemoglobin_result\<rparr>, \<lparr>page = 2, data = second_page_result\<rparr>]"
  unfolding dispatcher_returns_def
  apply (simp add: upload_def join_pdf file_save_def process_uploaded_file_def ext_pdf convert_pdf_to_images_def)
  apply (simp add: example_env_def empty_state_def)
  apply (simp add: example_extract_1 [unfolded example_env_def] example_extract_2 [unfolded example_env_def] join_pdf)
  done

lemma example_empty_pages:
  "dispatcher_returns example_env empty_state (upload ''report.pdf'' [3, 3])
     \<lparr>disk = [''Uploads/report.pdf'' \<mapsto> [3, 3]], calls = [([3], ''image/jpeg''), ([3], ''image/jpeg'')]\<rparr>
     [\<lparr>page = 1, data = default_result\<rparr>, \<lparr>page = 2, data = default_result\<rparr>]"
  unfolding dispatcher_returns_def
  apply (simp add: upload_def join_pdf file_save_def process_uploaded_file_def ext_pdf convert_pdf_to_images_def)
  apply (simp add: example_env_def empty_state_def)
  apply (simp add: example_extract_3 [unfolded example_env_def] join_pdf)
  done

lemma example_single_image:
  "dispatcher_returns example_env empty_state (upload ''scan.PNG'' [1])
     \<lparr>disk = [''Uploads/scan.PNG'' \<mapsto> [1]], calls = [([1], ''image/jpeg'')]\<rparr>
     [\<lparr>page = 1, data = hemoglobin_result\<rparr>]"
  unfolding dispatcher_returns_def
  apply (simp add: upload_def join_png file_save_def process_uploaded_file_def ext_png)
  apply (simp add: example_env_def empty_state_def)
  apply (simp add: example_extract_1 [unfolded example_env_def] join_png)
  done

lemma mapping_of_default:
  "mapping_of ''key_value_pairs'' default_result = Some Map.empty"
  "mapping_of ''extracted_tests'' default_result = Some Map.empty"
  by (simp_all add: mapping_of_def default_result_def)

lemma mapping_of_hemoglobin:
  "mapping_of ''key_value_pairs'' hemoglobin_result = Some Map.empty"
  "mapping_of ''extracted_tests'' hemoglobin_result = Some [''hemoglobin'' \<mapsto> PStr ''13.5 g/dL'']"
  by (simp_all add: mapping_of_def hemoglobin_result_def)

lemma mapping_of_second_page:
  "mapping_of ''key_value_pairs'' second_page_result = Some [''name'' \<mapsto> PStr ''A'']"
  "mapping_of ''extracted_tests'' second_page_result =
     Some [''hemoglobin'' \<mapsto> PStr ''14.0 g/dL'', ''creatinine'' \<mapsto> PStr ''1.1 mg/dL'']"
  by (simp_all add: mapping_of_def second_page_result_def)


section \<open>Stripping removes exactly the white space at the two ends\<close>

lemma dropWhile_no_head:
  "xs \<noteq> [] \<Longrightarrow> \<not> P (hd xs) \<Longrightarrow> dropWhile P xs = xs"
  by (cases xs) auto

lemma py_strip_sandwich:
  assumes "\<forall>c \<in> set l. py_isspace c" "\<forall>c \<in> set r. py_isspace c"
    and "t \<noteq> [] \<longrightarrow> \<not> py_isspace (hd t) \<and> \<not> py_isspace (last t)"
  shows "py_strip (l @ t @ r) = t"
proof (cases "t = []")
  case True
  have "\<forall>c \<in> set (l @ r). py_isspace c" using assms(1,2) by auto
  then have d: "dropWhile py_isspace (l @ r) = []" by (simp only: dropWhile_eq_Nil_conv)
  have "py_strip (l @ t @ r) = rev (dropWhile py_isspace (rev (dropWhile py_isspace (l @ r))))"
    using True by (simp only: py_strip_def append_Nil)
  also have "\<dots> = []" by (simp only: d) simp
  finally show ?thesis using True by simp
next
  case False
  with assms(3) have h: "\<not> py_isspace (hd t)" and la: "\<not> py_isspace (last t)" by auto
  have "dropWhile py_isspace (l @ t @ r) = dropWhile py_isspace (t @ r)"
    by (rule dropWhile_append2) (use assms(1) in auto)
  also have "\<dots> = t @ r"
    using False h by (intro dropWhile_no_head) auto
  finally have d: "dropWhile py_isspace (l @ t @ r) = t @ r" .
  have "dropWhile py_isspace (rev (t @ r)) = dropWhile py_isspace (rev r @ rev t)" by simp
  also have "\<dots> = dropWhile py_isspace (rev t)"
    by (rule dropWhile_append2) (use assms(2) in auto)
  also have "\<dots> = rev t"
    using False la by (intro dropWhile_no_head) (auto simp: hd_rev)
  finally show ?thesis by (simp add: py_strip_def d)
qed

lemma py_strip_trimmed: "trimmed s (py_strip s)"
proof -
  define u where "u = dropWhile py_isspace s"
  define t where "t = py_strip s"
  have t: "t = rev (dropWhile py_isspace (rev u))" by (simp add: t_def u_def py_strip_def)
  have s: "s = takeWhile py_isspace s @ u" by (simp add: u_def)
  have "t @ rev (takeWhile py_isspace (rev u)) =
          rev (takeWhile py_isspace (rev u) @ dropWhile py_isspace (rev u))"
    by (simp only: t rev_append)
  also have "\<dots> = rev (rev u)" by (simp only: takeWhile_dropWhile_id)
  finally have u: "u = t @ rev (takeWhile py_isspace (rev u))" by simp
  have l: "\<forall>c \<in> set (takeWhile py_isspace s). py_isspace c"
    by (auto dest: set_takeWhileD)
  have r: "\<forall>c \<in> set (rev (takeWhile py_isspace (rev u))). py_isspace c"
    by (auto dest: set_takeWhileD)
  have ends: "\<not> py_isspace (hd t) \<and> \<not> py_isspace (last t)" if ne: "t \<noteq> []"
  proof
    have "u \<noteq> []" using u ne by auto
    then have "\<not> py_isspace (hd u)" unfolding u_def by (rule hd_dropWhile)
    moreover have "hd u = hd t" using u ne by (metis hd_append2)
    ultimately show "\<not> py_isspace (hd t)" by simp
    have "dropWhile py_isspace (rev u) \<noteq> []" using ne t by auto
    then have "\<not> py_isspace (hd (dropWhile py_isspace (rev u)))" by (rule hd_dropWhile)
    moreover have "last t = hd (dropWhile py_isspace (rev u))"
      using ne t by (simp add: last_rev)
    ultimately show "\<not> py_isspace (last t)" by simp
  qed
  have "s = takeWhile py_isspace s @ t @ rev (takeWhile py_isspace (rev u))"
    using s u by simp
  with l r ends show ?thesis unfolding trimmed_def t_def by blast
qed

lemma trimmed_iff_py_strip: "trimmed s t \<longleftrightarrow> t = py_strip s"
proof
  assume "trimmed s t"
  then obtain l r where "s = l @ t @ r" "\<forall>c \<in> set l. py_isspace c" "\<forall>c \<in> set r. py_isspace c"
    "t \<noteq> [] \<longrightarrow> \<not> py_isspace (hd t) \<and> \<not> py_isspace (last t)"
    unfolding trimmed_def by blast
  then show "t = py_strip s" using py_strip_sandwich by simp
next
  assume "t = py_strip s"
  then show "trimmed s t" by (simp add: py_strip_trimmed)
qed

lemma white_space_characters:
  "filter py_isspace (map char_of [0 ..< 256 :: nat]) = all_white_space"
  by code_simp

lemma candidate_padded_reply: "json_candidate padded_reply = hemoglobin_json" by code_simp
lemma candidate_padded_json: "json_candidate padded_json = empty_json" by code_simp
lemma padded_differs: "padded_json \<noteq> empty_json" by code_simp

lemma no_block_in_padded_json:
  "\<forall>before interior after. \<not> fenced_block padded_json before interior after"
proof -
  have "re_search_fence padded_json = None" by code_simp
  then show ?thesis by (simp add: re_search_fence_None_iff)
qed

section \<open>From the dispatcher's results to the response\<close>

lemma is_empty_result_default:
  "mapping_of ''key_value_pairs'' (data r) = Some Map.empty \<Longrightarrow>
   mapping_of ''extracted_tests'' (data r) = Some Map.empty \<Longrightarrow>
   is_empty_result [r] = Inr True"
  by (simp add: is_empty_result_def mapping_of_getitem)

lemma is_empty_result_not_empty:
  "mapping_of ''key_value_pairs'' (data r) = Some kv \<Longrightarrow>
   mapping_of ''extracted_tests'' (data r) = Some et \<Longrightarrow>
   \<not> (kv = Map.empty \<and> et = Map.empty) \<Longrightarrow>
   is_empty_result [r] = Inr False"
  by (auto simp: is_empty_result_def mapping_of_getitem)

lemma foldl_map_add_empty:
  "\<forall>m \<in> set pages. m = Map.empty \<Longrightarrow> foldl (++) acc pages = acc"
  by (induction pages arbitrary: acc) auto

lemma example_merge:
  "merge_in_page_order [Map.empty, [''name'' \<mapsto> PStr ''A'']] = [''name'' \<mapsto> PStr ''A'']"
  "merge_in_page_order [ [''hemoglobin'' \<mapsto> PStr ''13.5 g/dL''],
       [''hemoglobin'' \<mapsto> PStr ''14.0 g/dL'', ''creatinine'' \<mapsto> PStr ''1.1 mg/dL'']] =
     [''hemoglobin'' \<mapsto> PStr ''14.0 g/dL'', ''creatinine'' \<mapsto> PStr ''1.1 mg/dL'']"
  by (simp_all add: merge_in_page_order_def)

lemma extract_returns:
  assumes "\<forall>e. generate_content env (length (calls s)) image_data mime_type = Inl e \<longrightarrow>
             exn_class_of e \<noteq> JSONDecodeError"
  shows "\<exists>v. extract_medical_terms_with_gemini_image env s image_data mime_type =
           (s\<lparr>calls := calls s @ [(image_data, mime_type)]\<rparr>, Inr v)"
  using assms
  by (auto simp: extract_medical_terms_with_gemini_image_def Let_def split: sum.splits)

text \<open>
  The dispatcher on an image file: one call with \<open>image/jpeg\<close> in every case, and one
  PageResult of page 1 unless the model call fails with a JSONDecodeError.
\<close>

lemma image_dispatch:
  assumes "py_lower (snd (os_path_splitext path)) \<in> {''.jpg'', ''.jpeg'', ''.png''}"
    and "disk s path = Some image_data"
  shows "fst (process_uploaded_file env s path) =
           s\<lparr>calls := calls s @ [(image_data, ''image/jpeg'')]\<rparr>"
    and "(\<forall>e. generate_content env (length (calls s)) image_data ''image/jpeg'' = Inl e \<longrightarrow>
            exn_class_of e \<noteq> JSONDecodeError) \<Longrightarrow>
         \<exists>v. snd (extract_medical_terms_with_gemini_image env s image_data ''image/jpeg'') = Inr v \<and>
             snd (process_uploaded_file env s path) = Inr [\<lparr>page = 1, data = v\<rparr>]"
    and "generate_content env (length (calls s)) image_data ''image/jpeg'' = Inl e \<Longrightarrow>
         exn_class_of e = JSONDecodeError \<Longrightarrow>
         map_sum exn_class_of id (snd (process_uploaded_file env s path)) = Inl UnboundLocalError"
proof -
  have np: "py_lower (snd (os_path_splitext path)) \<noteq> ''.pdf''"
    using assms(1) by auto
  show "fst (process_uploaded_file env s path) =
          s\<lparr>calls := calls s @ [(image_data, ''image/jpeg'')]\<rparr>"
    using assms np
    by (auto simp: process_uploaded_file_def extract_medical_terms_with_gemini_image_def Let_def
        split: sum.splits)
  show "\<exists>v. snd (extract_medical_terms_with_gemini_image env s image_data ''image/jpeg'') = Inr v \<and>
             snd (process_uploaded_file env s path) = Inr [\<lparr>page = 1, data = v\<rparr>]"
    if "\<forall>e. generate_content env (length (calls s)) image_data ''image/jpeg'' = Inl e \<longrightarrow>
            exn_class_of e \<noteq> JSONDecodeError"
  proof -
    from extract_returns[OF that] obtain v where
      "extract_medical_terms_with_gemini_image env s image_data ''image/jpeg'' =
          (s\<lparr>calls := calls s @ [(image_data, ''image/jpeg'')]\<rparr>, Inr v)"
      by blast
    then show ?thesis using assms np by (simp add: process_uploaded_file_def)
  qed
  show "map_sum exn_class_of id (snd (process_uploaded_file env s path)) = Inl UnboundLocalError"
    if "generate_content env (length (calls s)) image_data ''image/jpeg'' = Inl e"
      and "exn_class_of e = JSONDecodeError"
    using that assms np
    by (simp add: process_uploaded_file_def extract_medical_terms_with_gemini_image_def)
qed

lemma no_block_in_braces:
  "\<forall>before interior after. \<not> fenced_block ''{}'' before interior after"
proof -
  have "re_search_fence ''{}'' = None" by code_simp
  then show ?thesis by (simp add: re_search_fence_None_iff)
qed

lemma first_block_of_hemoglobin_reply:
  "first_fenced_block hemoglobin_reply hemoglobin_json"
proof -
  have "re_search_fence hemoglobin_reply = Some hemoglobin_json" by code_simp
  then show ?thesis by (simp add: re_search_fence_Some_iff)
qed

section \<open>The claims\<close>

text \<open>
  C1, as the code has it: when the uploaded file has a name, is written to disk, and its
  lower-cased extension \<open>ext\<close> is none of \<open>.pdf\<close>, \<open>.jpg\<close>, \<open>.jpeg\<close>, \<open>.png\<close>, the endpoint
  answers with status 500 and the body
  \<open>{"error": "Processing failed: Unsupported file type: <ext>. Please upload a PDF, JPEG, or PNG file."}\<close>:
  the dispatcher's ValueError is caught by the handler of the \<open>try\<close> block like any other
  exception.
\<close>

theorem unsupported_extension_500:
  assumes "map_of (request_files req) ''file'' = Some file"
    and "filename file \<noteq> []"
    and "file_save_error env (os_path_join UPLOAD_FOLDER (filename file)) = None"
    and "py_lower (snd (os_path_splitext (os_path_join UPLOAD_FOLDER (filename file)))) = ext"
    and "ext \<notin> {''.pdf'', ''.jpg'', ''.jpeg'', ''.png''}"
  shows "snd (upload_file env s req) =
     Responded (PDict [''error'' \<mapsto> PStr (''Processing failed: Unsupported file type: '' @ ext
        @ ''. Please upload a PDF, JPEG, or PNG file.'')]) 500"
  using assms
  by (auto simp: upload_file_def file_save_def process_uploaded_file_def processing_failed_def
      error_response_def Let_def)

text \<open>The upload of \<open>scan.gif\<close> in the example environment.\<close>

theorem unsupported_extension_500_witness:
  "snd (upload_file example_env empty_state (upload ''scan.gif'' [1])) =
     Responded (PDict [''error'' \<mapsto> PStr
        ''Processing failed: Unsupported file type: .gif. Please upload a PDF, JPEG, or PNG file.'']) 500"
  using unsupported_extension_500 [of "upload ''scan.gif'' [1]" "\<lparr>filename = ''scan.gif'', stream = [1]\<rparr>"
      example_env "''.gif''" empty_state]
  by (simp add: upload_def join_gif ext_gif example_env_def)

text \<open>
  C1 as stated fails: the upload of \<open>scan.gif\<close> is not answered with status 400 and the body
  \<open>{"error": "Unsupported file type: .gif. Please upload a PDF, JPEG, or PNG file."}\<close>.
\<close>

theorem unsupported_extension_not_400:
  "py_lower (snd (os_path_splitext (os_path_join UPLOAD_FOLDER ''scan.gif''))) = ''.gif'' \<and>
   snd (upload_file example_env empty_state (upload ''scan.gif'' [1])) \<noteq>
     Responded (PDict [''error'' \<mapsto> PStr
        ''Unsupported file type: .gif. Please upload a PDF, JPEG, or PNG file.'']) 400"
  by (simp add: upload_file_def upload_def file_save_def example_env_def join_gif ext_gif
      process_uploaded_file_def processing_failed_def error_response_def)

text \<open>
  C2, as the code has it. Given the model's reply text, the parser returns a value and
  raises nothing: the default result when \<open>json.loads\<close> fails on the candidate, with a
  JSONDecodeError or with any other exception, and otherwise the decoded value as it is,
  whatever its shape. A model call that fails with an exception other than a
  JSONDecodeError also gives the default result, which is a well-formed ExtractionResult.
\<close>

theorem parser_default_or_decoded:
  "(\<forall>text. generate_content env (length (calls s)) image_data mime_type = Inr text \<longrightarrow>
      (\<exists>v. snd (extract_medical_terms_with_gemini_image env s image_data mime_type) = Inr v) \<and>
      (\<forall>e. json_loads env (json_candidate text) = Inl e \<longrightarrow>
           snd (extract_medical_terms_with_gemini_image env s image_data mime_type) = Inr default_result) \<and>
      (\<forall>v. json_loads env (json_candidate text) = Inr v \<longrightarrow>
           snd (extract_medical_terms_with_gemini_image env s image_data mime_type) = Inr v)) \<and>
   (\<forall>e. generate_content env (length (calls s)) image_data mime_type = Inl e \<and>
        exn_class_of e \<noteq> JSONDecodeError \<longrightarrow>
        snd (extract_medical_terms_with_gemini_image env s image_data mime_type) = Inr default_result) \<and>
   is_extraction_result default_result"
  by (auto simp: extract_medical_terms_with_gemini_image_def Let_def is_extraction_result_def
      default_result_def split: sum.splits)

text \<open>A reply in prose gives the default result; the fenced reply gives its decoded JSON.\<close>

theorem parser_default_or_decoded_witness:
  "snd (extract_medical_terms_with_gemini_image example_env empty_state [9] ''image/jpeg'') =
     Inr default_result \<and>
   snd (extract_medical_terms_with_gemini_image example_env empty_state [1] ''image/jpeg'') =
     Inr hemoglobin_result"
  using parser_default_or_decoded [of example_env empty_state "[9]" "''image/jpeg''"]
    parser_default_or_decoded [of example_env empty_state "[1]" "''image/jpeg''"]
  by (simp add: example_env_def example_reply_def candidate_prose loads_prose
      candidate_hemoglobin loads_hemoglobin)

text \<open>
  C2 as stated fails: when the model replies \<open>{}\<close>, which is valid JSON, the parser returns
  the empty dict, and that is not a mapping with the two keys.
\<close>

theorem parser_returns_empty_object:
  "snd (extract_medical_terms_with_gemini_image example_env empty_state [4] ''image/jpeg'') =
     Inr (PDict Map.empty) \<and>
   \<not> is_extraction_result (PDict Map.empty)"
  by (simp add: example_extract_4 is_extraction_result_def)

text \<open>
  C3: when the dispatcher returns two or more PageResults, each holding its two mappings,
  the endpoint answers 200 with the two mappings merged in page order. In each merged
  mapping a key present in exactly one page has that page's value, and a key present in
  two pages has the later page's value.
\<close>

theorem pages_merged_last_write_wins:
  assumes "dispatcher_returns env s req s' results"
    and "2 \<le> length results"
    and "\<forall>r \<in> set results. is_page_result r"
    and "kvs = map (page_mapping ''key_value_pairs'') results"
    and "ets = map (page_mapping ''extracted_tests'') results"
  shows "upload_file env s req =
     (s', Responded (PDict [''data'' \<mapsto>
            PDict [''key_value_pairs'' \<mapsto> PDict (merge_in_page_order kvs),
                   ''extracted_tests'' \<mapsto> PDict (merge_in_page_order ets)]]) 200) \<and>
     single_page_keys_kept kvs (merge_in_page_order kvs) \<and>
     later_page_wins kvs (merge_in_page_order kvs) \<and>
     single_page_keys_kept ets (merge_in_page_order ets) \<and>
     later_page_wins ets (merge_in_page_order ets)"
  using upload_file_dispatch[OF assms(1)] respond_many[OF assms(2,3)] assms(4,5)
  by (simp add: merge_single_page_keys_kept merge_later_page_wins)

text \<open>
  A PDF of two pages: \<open>hemoglobin\<close> is on both pages and has the second page's value,
  \<open>creatinine\<close> and \<open>name\<close> are on the second page only.
\<close>

theorem pages_merged_last_write_wins_witness:
  "upload_file example_env empty_state (upload ''report.pdf'' [1, 2]) =
     (\<lparr>disk = [''Uploads/report.pdf'' \<mapsto> [1, 2]],
       calls = [([1], ''image/jpeg''), ([2], ''image/jpeg'')]\<rparr>,
      Responded (PDict [''data'' \<mapsto>
        PDict [''key_value_pairs'' \<mapsto> PDict [''name'' \<mapsto> PStr ''A''],
               ''extracted_tests'' \<mapsto> PDict [''hemoglobin'' \<mapsto> PStr ''14.0 g/dL'',
                                              ''creatinine'' \<mapsto> PStr ''1.1 mg/dL'']]]) 200)"
  using pages_merged_last_write_wins [OF example_two_pages, of
      "[Map.empty, [''name'' \<mapsto> PStr ''A'']]"
      "[ [''hemoglobin'' \<mapsto> PStr ''13.5 g/dL''],
        [''hemoglobin'' \<mapsto> PStr ''14.0 g/dL'', ''creatinine'' \<mapsto> PStr ''1.1 mg/dL'']]"]
  by (simp add: is_page_result_def page_mapping_def mapping_of_hemoglobin mapping_of_second_page
      example_merge)

text \<open>
  C4: for an upload with the extension \<open>.pdf\<close> that is written to disk and for which the
  rasterizer gives no image, the dispatcher returns the single PageResult
  \<open>{page: 1, data: {key_value_pairs: {}, extracted_tests: {}}}\<close> without raising, and the
  endpoint answers with status 500 and the extraction-failure body.
\<close>

theorem pdf_without_pages_500:
  assumes "map_of (request_files req) ''file'' = Some file"
    and "filename file \<noteq> []"
    and "path = os_path_join UPLOAD_FOLDER (filename file)"
    and "file_save env s file path = Inr s1"
    and "py_lower (snd (os_path_splitext path)) = ''.pdf''"
    and "convert_pdf_to_images env s1 path = []"
  shows "process_uploaded_file env s1 path = (s1, Inr [\<lparr>page = 1, data = default_result\<rparr>]) \<and>
         upload_file env s req =
           (s1, Responded (PDict [''error'' \<mapsto> PStr
              ''Failed to extract data from the file. Ensure the file contains readable medical report data.'']) 500)"
proof -
  have p: "process_uploaded_file env s1 path = (s1, Inr [\<lparr>page = 1, data = default_result\<rparr>])"
    using assms(5,6) by (simp add: process_uploaded_file_def)
  have "dispatcher_returns env s req s1 [\<lparr>page = 1, data = default_result\<rparr>]"
    using assms(1-4) p by (auto simp: dispatcher_returns_def)
  then have "upload_file env s req = (s1, respond_to_results [\<lparr>page = 1, data = default_result\<rparr>])"
    by (rule upload_file_dispatch)
  moreover have "is_empty_result [\<lparr>page = 1, data = default_result\<rparr>] = Inr True"
    by (rule is_empty_result_default) (simp_all add: mapping_of_default)
  ultimately show ?thesis
    using p by (simp add: respond_to_results_def error_response_def)
qed

text \<open>A PDF without pages in the example environment.\<close>

theorem pdf_without_pages_500_witness:
  "process_uploaded_file example_env \<lparr>disk = [''Uploads/report.pdf'' \<mapsto> []], calls = []\<rparr>
       ''Uploads/report.pdf'' =
     (\<lparr>disk = [''Uploads/report.pdf'' \<mapsto> []], calls = []\<rparr>,
      Inr [\<lparr>page = 1, data = default_result\<rparr>]) \<and>
   upload_file example_env empty_state (upload ''report.pdf'' []) =
     (\<lparr>disk = [''Uploads/report.pdf'' \<mapsto> []], calls = []\<rparr>,
      Responded (PDict [''error'' \<mapsto> PStr
        ''Failed to extract data from the file. Ensure the file contains readable medical report data.'']) 500)"
  using pdf_without_pages_500 [of "upload ''report.pdf'' []" "\<lparr>filename = ''report.pdf'', stream = []\<rparr>"
      "''Uploads/report.pdf''" example_env empty_state
      "\<lparr>disk = [''Uploads/report.pdf'' \<mapsto> []], calls = []\<rparr>"]
  by (simp add: upload_def join_pdf ext_pdf file_save_def convert_pdf_to_images_def example_env_def
      empty_state_def)

text \<open>
  C5: the candidate handed to \<open>json.loads\<close> is the interior of the first fenced block,
  the one that starts leftmost and has the shortest interior (a text with a fenced block
  has a first one), trimmed, and the whole text, trimmed, when there is no fenced block.
  Trimming removes the white space at the two ends and nothing else, which is what
  \<open>strip\<close> computes; of the 256 characters, twelve are white space. The fenced hemoglobin reply has its JSON as candidate, also with prose
  before the fence and white space around the JSON, and an unfenced reply between white
  space has its JSON as candidate. So for the fenced hemoglobin reply the parser yields
  what \<open>json.loads\<close> makes of that JSON:
  \<open>{"key_value_pairs": {}, "extracted_tests": {"hemoglobin": "13.5 g/dL"}}\<close>.
\<close>

theorem candidate_is_first_fenced_block:
  "(first_fenced_block text interior \<longrightarrow>
      json_candidate text = py_strip interior \<and> trimmed interior (json_candidate text)) \<and>
   ((\<exists>before interior' after. fenced_block text before interior' after) \<longrightarrow>
      (\<exists>interior'. first_fenced_block text interior')) \<and>
   ((\<forall>before interior' after. \<not> fenced_block text before interior' after) \<longrightarrow>
      json_candidate text = py_strip text \<and> trimmed text (json_candidate text)) \<and>
   (trimmed u t \<longleftrightarrow> t = py_strip u) \<and>
   filter py_isspace (map char_of [0 ..< 256 :: nat]) = all_white_space \<and>
   json_candidate hemoglobin_reply = hemoglobin_json \<and>
   json_candidate padded_reply = hemoglobin_json \<and>
   json_candidate padded_json = empty_json \<and>
   (generate_content env (length (calls s)) image_data mime_type = Inr hemoglobin_reply \<and>
    json_loads env hemoglobin_json = Inr hemoglobin_result \<longrightarrow>
      snd (extract_medical_terms_with_gemini_image env s image_data mime_type) = Inr hemoglobin_result)"
proof -
  have a: "first_fenced_block text interior \<longrightarrow>
      json_candidate text = py_strip interior \<and> trimmed interior (json_candidate text)"
    by (simp add: json_candidate_def py_strip_trimmed flip: re_search_fence_Some_iff)
  have b: "(\<exists>before interior' after. fenced_block text before interior' after) \<longrightarrow>
      (\<exists>interior'. first_fenced_block text interior')"
  proof
    assume "\<exists>before interior' after. fenced_block text before interior' after"
    then have "re_search_fence text \<noteq> None" by (simp add: re_search_fence_None_iff)
    then obtain i where "re_search_fence text = Some i" by blast
    then show "\<exists>interior'. first_fenced_block text interior'"
      by (auto simp: re_search_fence_Some_iff)
  qed
  have c: "(\<forall>before interior' after. \<not> fenced_block text before interior' after) \<longrightarrow>
      json_candidate text = py_strip text \<and> trimmed text (json_candidate text)"
    by (simp add: json_candidate_def py_strip_trimmed flip: re_search_fence_None_iff)
  have d: "generate_content env (length (calls s)) image_data mime_type = Inr hemoglobin_reply \<and>
    json_loads env hemoglobin_json = Inr hemoglobin_result \<longrightarrow>
      snd (extract_medical_terms_with_gemini_image env s image_data mime_type) = Inr hemoglobin_result"
    by (simp add: extract_medical_terms_with_gemini_image_def candidate_hemoglobin)
  from a b c d candidate_hemoglobin candidate_padded_reply candidate_padded_json
    trimmed_iff_py_strip [of u t] white_space_characters
  show ?thesis by blast
qed

text \<open>
  The fenced hemoglobin reply in the example environment; the reply \<open>{}\<close>, which has no
  fenced block; and the empty result between white space, whose candidate is the JSON
  alone.
\<close>

theorem candidate_is_first_fenced_block_witness:
  "first_fenced_block hemoglobin_reply hemoglobin_json \<and>
   json_candidate hemoglobin_reply = py_strip hemoglobin_json \<and>
   json_candidate ''{}'' = py_strip ''{}'' \<and>
   trimmed padded_json empty_json \<and> padded_json \<noteq> empty_json \<and>
   py_strip padded_json = empty_json \<and>
   snd (extract_medical_terms_with_gemini_image example_env empty_state [1] ''image/jpeg'') =
     Inr (PDict [''key_value_pairs'' \<mapsto> PDict Map.empty,
                 ''extracted_tests'' \<mapsto> PDict [''hemoglobin'' \<mapsto> PStr ''13.5 g/dL'']])"
proof -
  note hemoglobin =
    candidate_is_first_fenced_block [of hemoglobin_reply hemoglobin_json padded_json empty_json
      example_env empty_state "[1]" "''image/jpeg''"]
  note braces =
    candidate_is_first_fenced_block [of "''{}''" "[]" "[]" "[]" example_env empty_state "[4]"
      "''image/jpeg''"]
  note padded =
    candidate_is_first_fenced_block [of padded_json "[]" "[]" "[]" example_env empty_state "[4]"
      "''image/jpeg''"]
  have a: "json_candidate hemoglobin_reply = py_strip hemoglobin_json"
    using hemoglobin first_block_of_hemoglobin_reply by blast
  have b: "json_candidate ''{}'' = py_strip ''{}''"
    using braces no_block_in_braces by blast
  have "json_candidate padded_json = empty_json"
    using hemoglobin by blast
  moreover have "json_candidate padded_json = py_strip padded_json"
    using padded no_block_in_padded_json by blast
  ultimately have c: "py_strip padded_json = empty_json"
    by simp
  have "trimmed padded_json empty_json \<longleftrightarrow> empty_json = py_strip padded_json"
    using hemoglobin by blast
  with c have d: "trimmed padded_json empty_json"
    by simp
  have "generate_content example_env (length (calls empty_state)) [1] ''image/jpeg'' =
          Inr hemoglobin_reply \<and>
        json_loads example_env hemoglobin_json = Inr hemoglobin_result"
    by (simp add: example_env_def example_reply_def loads_hemoglobin)
  with hemoglobin have
    "snd (extract_medical_terms_with_gemini_image example_env empty_state [1] ''image/jpeg'') =
       Inr hemoglobin_result"
    by blast
  then have e:
    "snd (extract_medical_terms_with_gemini_image example_env empty_state [1] ''image/jpeg'') =
       Inr (PDict [''key_value_pairs'' \<mapsto> PDict Map.empty,
                   ''extracted_tests'' \<mapsto> PDict [''hemoglobin'' \<mapsto> PStr ''13.5 g/dL'']])"
    by (simp add: hemoglobin_result_def)
  from first_block_of_hemoglobin_reply a b c d e padded_differs show ?thesis
    by blast
qed

text \<open>
  C6: when the dispatcher returns exactly one PageResult whose two mappings are not both
  empty, the endpoint answers 200 with the body \<open>{"data": d}\<close>, where \<open>d\<close> is that
  PageResult's data, unchanged.
\<close>

theorem single_page_verbatim:
  assumes "dispatcher_returns env s req s' [r]"
    and "mapping_of ''key_value_pairs'' (data r) = Some kv"
    and "mapping_of ''extracted_tests'' (data r) = Some et"
    and "\<not> (kv = Map.empty \<and> et = Map.empty)"
  shows "upload_file env s req = (s', Responded (PDict [''data'' \<mapsto> data r]) 200)"
  using upload_file_dispatch[OF assms(1)] is_empty_result_not_empty[OF assms(2-4)]
  by (simp add: respond_to_results_def)

text \<open>The upload of one image in the example environment.\<close>

theorem single_page_verbatim_witness:
  "upload_file example_env empty_state (upload ''scan.PNG'' [1]) =
     (\<lparr>disk = [''Uploads/scan.PNG'' \<mapsto> [1]], calls = [([1], ''image/jpeg'')]\<rparr>,
      Responded (PDict [''data'' \<mapsto> hemoglobin_result]) 200)"
  using single_page_verbatim [OF example_single_image, of Map.empty
      "[''hemoglobin'' \<mapsto> PStr ''13.5 g/dL'']"]
  by (simp add: mapping_of_hemoglobin)

text \<open>
  C7: for a path whose lower-cased extension is \<open>.jpg\<close>, \<open>.jpeg\<close> or \<open>.png\<close> and which holds a
  file, the dispatcher calls the model client and parser exactly once, with the file's
  bytes as they are and the MIME type \<open>image/jpeg\<close>. The code breaks the rest of the claim
  when the model call fails with a JSONDecodeError: the handler of line 66 reads
  \<open>response.text\<close> at line 68 although \<open>response\<close> was never bound, the UnboundLocalError
  leaves the parser and the dispatcher, no PageResult is returned, and the endpoint
  answers with status 500. Here for a file named \<open>scan.PNG\<close>.
\<close>

theorem image_upload_decode_error_raises:
  "py_lower (snd (os_path_splitext ''Uploads/scan.PNG'')) = ''.png'' \<and>
   calls (fst (process_uploaded_file decode_error_env
                 \<lparr>disk = [''Uploads/scan.PNG'' \<mapsto> [1]], calls = []\<rparr> ''Uploads/scan.PNG'')) =
     [([1], ''image/jpeg'')] \<and>
   map_sum exn_class_of id
     (snd (process_uploaded_file decode_error_env
             \<lparr>disk = [''Uploads/scan.PNG'' \<mapsto> [1]], calls = []\<rparr> ''Uploads/scan.PNG'')) =
     Inl UnboundLocalError \<and>
   snd (upload_file decode_error_env empty_state (upload ''scan.PNG'' [1])) =
     processing_failed (Exn UnboundLocalError
       (''cannot access local variable '' @ quoted ''response''
          @ '' where it is not associated with a value''))"
  by (simp add: ext_png join_png process_uploaded_file_def upload_file_def upload_def file_save_def
      extract_medical_terms_with_gemini_image_def decode_error_env_def example_env_def
      empty_state_def)

text \<open>
  C8: a request without a part named \<open>file\<close> is answered with status 400 and the body
  \<open>{"error": "No file part in the request"}\<close>; a request whose \<open>file\<close> part has an empty
  filename is answered with status 400 and \<open>{"error": "No file selected"}\<close>. In both cases
  the state is returned as it was: nothing is written to disk and the model is not called.
\<close>

theorem upload_without_file_400:
  "(map_of (request_files req) ''file'' = None \<longrightarrow>
      upload_file env s req =
        (s, Responded (PDict [''error'' \<mapsto> PStr ''No file part in the request'']) 400)) \<and>
   (\<forall>file. map_of (request_files req) ''file'' = Some file \<and> filename file = [] \<longrightarrow>
      upload_file env s req =
        (s, Responded (PDict [''error'' \<mapsto> PStr ''No file selected'']) 400))"
  by (simp add: upload_file_def error_response_def)

text \<open>Both cases of C8 in the example environment.\<close>

theorem upload_without_file_400_witness:
  "upload_file example_env empty_state \<lparr>request_files = []\<rparr> =
     (empty_state, Responded (PDict [''error'' \<mapsto> PStr ''No file part in the request'']) 400) \<and>
   upload_file example_env empty_state (upload [] [1]) =
     (empty_state, Responded (PDict [''error'' \<mapsto> PStr ''No file selected'']) 400)"
  using upload_without_file_400 [of "\<lparr>request_files = []\<rparr>" example_env empty_state]
    upload_without_file_400 [of "upload [] [1]" example_env empty_state]
  by (simp add: upload_def)

text \<open>
  C9: when the dispatcher returns two or more PageResults and both mappings of every page
  are empty, the endpoint answers 200 with the body
  \<open>{"data": {"key_value_pairs": {}, "extracted_tests": {}}}\<close>, not the extraction-failure 500.
\<close>

theorem all_pages_empty_200:
  assumes "dispatcher_returns env s req s' results"
    and "2 \<le> length results"
    and "\<forall>r \<in> set results. mapping_of ''key_value_pairs'' (data r) = Some Map.empty \<and>
                            mapping_of ''extracted_tests'' (data r) = Some Map.empty"
  shows "upload_file env s req =
     (s', Responded (PDict [''data'' \<mapsto>
            PDict [''key_value_pairs'' \<mapsto> PDict Map.empty,
                   ''extracted_tests'' \<mapsto> PDict Map.empty]]) 200)"
proof -
  have pr: "\<forall>r \<in> set results. is_page_result r"
    using assms(3) by (simp add: is_page_result_def)
  have "\<forall>m \<in> set (map (page_mapping ''key_value_pairs'') results). m = Map.empty"
       "\<forall>m \<in> set (map (page_mapping ''extracted_tests'') results). m = Map.empty"
    using assms(3) by (auto simp: page_mapping_def)
  then have "merge_in_page_order (map (page_mapping ''key_value_pairs'') results) = Map.empty"
            "merge_in_page_order (map (page_mapping ''extracted_tests'') results) = Map.empty"
    unfolding merge_in_page_order_def by (simp_all only: foldl_map_add_empty)
  with upload_file_dispatch[OF assms(1)] respond_many[OF assms(2) pr] show ?thesis by simp
qed

text \<open>A PDF of two pages on which the model finds nothing.\<close>

theorem all_pages_empty_200_witness:
  "upload_file example_env empty_state (upload ''report.pdf'' [3, 3]) =
     (\<lparr>disk = [''Uploads/report.pdf'' \<mapsto> [3, 3]],
       calls = [([3], ''image/jpeg''), ([3], ''image/jpeg'')]\<rparr>,
      Responded (PDict [''data'' \<mapsto>
            PDict [''key_value_pairs'' \<mapsto> PDict Map.empty,
                   ''extracted_tests'' \<mapsto> PDict Map.empty]]) 200)"
  using all_pages_empty_200 [OF example_empty_pages]
  by (simp add: mapping_of_default)

text \<open>
  C10, as the code has it: for a request with a \<open>file\<close> part and a filename, when the write
  does not fail, the bytes are on disk at \<open>os.path.join('Uploads', filename)\<close> before the
  dispatcher, which checks the extension, runs, and they are still there in the final
  state whatever the extension and whatever the response; no other path has changed.
  The path is \<open>Uploads/<filename>\<close> unless the filename begins with a slash, and then it is
  the filename itself. No request removes a path from the disk.
\<close>

theorem upload_persisted_before_dispatch:
  assumes "map_of (request_files req) ''file'' = Some file"
    and "filename file \<noteq> []"
    and "path = os_path_join UPLOAD_FOLDER (filename file)"
    and "file_save_error env path = None"
    and "s1 = s\<lparr>disk := (disk s)(path \<mapsto> stream file)\<rparr>"
  shows "upload_file (env :: 'img env) s req =
           (case process_uploaded_file env s1 path of
              (s2, Inl e) \<Rightarrow> (s2, processing_failed e)
            | (s2, Inr results) \<Rightarrow> (s2, respond_to_results results)) \<and>
         disk (fst (upload_file env s req)) = (disk s)(path \<mapsto> stream file) \<and>
         (py_lower (snd (os_path_splitext path)) \<notin> {''.pdf'', ''.jpg'', ''.jpeg'', ''.png''} \<longrightarrow>
            disk (fst (upload_file env s req)) path = Some (stream file)) \<and>
         (\<not> prefix ''/'' (filename file) \<longrightarrow> path = ''Uploads/'' @ filename file) \<and>
         (prefix ''/'' (filename file) \<longrightarrow> path = filename file) \<and>
         (\<forall>(env' :: 'img env) s0 req'.
            dom (disk s0) \<subseteq> dom (disk (fst (upload_file env' s0 req'))))"
proof -
  have a: "upload_file env s req =
           (case process_uploaded_file env s1 path of
              (s2, Inl e) \<Rightarrow> (s2, processing_failed e)
            | (s2, Inr results) \<Rightarrow> (s2, respond_to_results results))"
    using assms by (simp add: upload_file_def file_save_def Let_def)
  have b: "disk (fst (upload_file env s req)) = (disk s)(path \<mapsto> stream file)"
    using assms(1-4) by (simp add: upload_file_disk)
  have c: "\<not> prefix ''/'' (filename file) \<longrightarrow> path = ''Uploads/'' @ filename file"
    using assms(3) by (simp add: os_path_join_def UPLOAD_FOLDER_def suffix_def)
  have d: "prefix ''/'' (filename file) \<longrightarrow> path = filename file"
    using assms(3) by (simp add: os_path_join_def)
  have e: "dom (disk s0) \<subseteq> dom (disk (fst (upload_file env' s0 req')))"
    for env' :: "'img env" and s0 req'
    by (auto simp: upload_file_disk split: option.splits)
  from a b c d e show ?thesis by simp
qed

text \<open>The upload of \<open>scan.gif\<close>: refused, and on disk.\<close>

theorem upload_persisted_before_dispatch_witness:
  "upload_file example_env empty_state (upload ''scan.gif'' [7]) =
     (\<lparr>disk = [''Uploads/scan.gif'' \<mapsto> [7]], calls = []\<rparr>,
      Responded (PDict [''error'' \<mapsto> PStr
        ''Processing failed: Unsupported file type: .gif. Please upload a PDF, JPEG, or PNG file.'']) 500) \<and>
   disk (fst (upload_file example_env empty_state (upload ''scan.gif'' [7]))) ''Uploads/scan.gif'' =
     Some [7]"
  using upload_persisted_before_dispatch [of "upload ''scan.gif'' [7]"
      "\<lparr>filename = ''scan.gif'', stream = [7]\<rparr>" "''Uploads/scan.gif''" example_env
      "\<lparr>disk = [''Uploads/scan.gif'' \<mapsto> [7]], calls = []\<rparr>" empty_state]
  by (simp add: upload_def join_gif ext_gif example_env_def empty_state_def
      process_uploaded_file_def processing_failed_def error_response_def)

text \<open>
  C10 as stated fails: a file uploaded under the name \<open>/tmp/scan.gif\<close> is written at
  \<open>/tmp/scan.gif\<close>, and the disk holds nothing else, so nothing in the Uploads directory.
\<close>

theorem absolute_filename_leaves_uploads:
  "disk (fst (upload_file example_env empty_state (upload ''/tmp/scan.gif'' [7]))) =
     [''/tmp/scan.gif'' \<mapsto> [7]] \<and>
   disk (fst (upload_file example_env empty_state (upload ''/tmp/scan.gif'' [7])))
     ''Uploads//tmp/scan.gif'' = None \<and>
   \<not> prefix ''Uploads'' ''/tmp/scan.gif''"
  by (simp add: upload_file_disk upload_def join_abs example_env_def empty_state_def)

end
